theory Spec2Isabelle
  imports Complex_Main "HOL-Library.Sublist"
begin

section \<open>JSON values as Python sees them\<close>

text \<open>
  Resources are what \<^verbatim>\<open>json.load\<close> returns: \<^verbatim>\<open>None\<close>, \<^verbatim>\<open>bool\<close>, \<^verbatim>\<open>int\<close>,
  \<^verbatim>\<open>float\<close>, \<^verbatim>\<open>str\<close>, \<^verbatim>\<open>list\<close> and \<^verbatim>\<open>dict\<close> with string keys. A dict is an
  association list in insertion order (Python dicts keep it); keys are distinct in
  every dict that \<^verbatim>\<open>json.load\<close> builds. A \<^verbatim>\<open>str\<close> is a list of code points; the
  model covers the code points below 256, one \<open>char\<close> each. A float is the real number
  it denotes, or one of the three non-finite values.
\<close>

datatype pyfloat = Fin real | PosInf | NegInf | NaN

datatype jv =
    JNull
  | JBool bool
  | JInt int
  | JFloat pyfloat
  | JStr string
  | JList "jv list"
  | JDict "(string \<times> jv) list"

type_synonym resource = "(string \<times> jv) list"

datatype py_error = ValueError | TypeError | KeyError

subsection \<open>Truth value and equality\<close>

fun truthy :: "jv \<Rightarrow> bool" where
  "truthy JNull = False"
| "truthy (JBool b) = b"
| "truthy (JInt i) = (i \<noteq> 0)"
| "truthy (JFloat f) = (f \<noteq> Fin 0)"
| "truthy (JStr s) = (s \<noteq> [])"
| "truthy (JList xs) = (xs \<noteq> [])"
| "truthy (JDict d) = (d \<noteq> [])"

text \<open>\<^verbatim>\<open>a or b\<close>\<close>

definition py_or :: "jv \<Rightarrow> jv \<Rightarrow> jv" where
  "py_or a b = (if truthy a then a else b)"

fun float_eq :: "pyfloat \<Rightarrow> pyfloat \<Rightarrow> bool" where
  "float_eq (Fin a) (Fin b) = (a = b)"
| "float_eq PosInf PosInf = True"
| "float_eq NegInf NegInf = True"
| "float_eq _ _ = False"

text \<open>\<^verbatim>\<open>bool\<close>, \<^verbatim>\<open>int\<close> and \<^verbatim>\<open>float\<close> compare by their numeric value.\<close>

fun num_of :: "jv \<Rightarrow> pyfloat option" where
  "num_of (JBool b) = Some (Fin (if b then 1 else 0))"
| "num_of (JInt i) = Some (Fin (of_int i))"
| "num_of (JFloat f) = Some f"
| "num_of _ = None"

definition num_eq :: "pyfloat \<Rightarrow> jv \<Rightarrow> bool" where
  "num_eq f y = (case num_of y of Some g \<Rightarrow> float_eq f g | None \<Rightarrow> False)"

text \<open>\<^verbatim>\<open>x == y\<close> on JSON values.\<close>

fun py_eq :: "jv \<Rightarrow> jv \<Rightarrow> bool"
  and py_eq_list :: "jv list \<Rightarrow> jv list \<Rightarrow> bool"
  and py_eq_items :: "(string \<times> jv) list \<Rightarrow> (string \<times> jv) list \<Rightarrow> bool" where
  "py_eq JNull y = (y = JNull)"
| "py_eq (JBool b) y = num_eq (Fin (if b then 1 else 0)) y"
| "py_eq (JInt i) y = num_eq (Fin (of_int i)) y"
| "py_eq (JFloat f) y = num_eq f y"
| "py_eq (JStr s) y = (y = JStr s)"
| "py_eq (JList xs) y = (case y of JList ys \<Rightarrow> py_eq_list xs ys | _ \<Rightarrow> False)"
| "py_eq (JDict a) y =
     (case y of JDict b \<Rightarrow> length a = length b \<and> py_eq_items a b | _ \<Rightarrow> False)"
| "py_eq_list [] ys = (ys = [])"
| "py_eq_list (x # xs) ys =
     (case ys of [] \<Rightarrow> False | y # ys' \<Rightarrow> py_eq x y \<and> py_eq_list xs ys')"
| "py_eq_items [] b = True"
| "py_eq_items (kv # rest) b =
     (case map_of b (fst kv) of
        None \<Rightarrow> False
      | Some w \<Rightarrow> py_eq (snd kv) w \<and> py_eq_items rest b)"

text \<open>\<^verbatim>\<open>x in xs\<close> for a list \<open>xs\<close>.\<close>

definition py_in :: "jv \<Rightarrow> jv list \<Rightarrow> bool" where
  "py_in x xs = list_ex (\<lambda>e. py_eq e x) xs"

subsection \<open>Dictionary access\<close>

text \<open>\<^verbatim>\<open>k in d\<close>, \<^verbatim>\<open>d.get(k)\<close> and \<^verbatim>\<open>d[k]\<close>.\<close>

definition has_key :: "resource \<Rightarrow> string \<Rightarrow> bool" where
  "has_key d k = (map_of d k \<noteq> None)"

definition get :: "resource \<Rightarrow> string \<Rightarrow> jv" where
  "get d k = (case map_of d k of None \<Rightarrow> JNull | Some v \<Rightarrow> v)"

definition subscript :: "resource \<Rightarrow> string \<Rightarrow> py_error + jv" where
  "subscript d k = (case map_of d k of None \<Rightarrow> Inl KeyError | Some v \<Rightarrow> Inr v)"

section \<open>utils.py\<close>

subsection \<open>The string methods \<open>normalize_value\<close> calls\<close>

text \<open>
  \<^verbatim>\<open>str.isdigit()\<close> holds for a non-empty string of characters with the Unicode
  property Numeric\_Type = Digit or Decimal. Below code point 256 these are the ten
  ASCII digits and the superscripts U+00B2, U+00B3 and U+00B9.
\<close>

definition ascii_digit :: "char \<Rightarrow> bool" where
  "ascii_digit c = (c \<in> set ''0123456789'')"

definition isdigit_char :: "char \<Rightarrow> bool" where
  "isdigit_char c = (ascii_digit c \<or> c = CHR 0xB2 \<or> c = CHR 0xB3 \<or> c = CHR 0xB9)"

definition str_isdigit :: "string \<Rightarrow> bool" where
  "str_isdigit s = (s \<noteq> [] \<and> list_all isdigit_char s)"

definition digit_val :: "char \<Rightarrow> int" where
  "digit_val c = int (of_char c) - 48"

definition digits_val :: "string \<Rightarrow> int" where
  "digits_val s = foldl (\<lambda>a c. 10 * a + digit_val c) 0 s"

text \<open>
  \<^verbatim>\<open>int(s)\<close> on the strings \<^verbatim>\<open>isdigit\<close> lets through (no sign, blank or underscore):
  the number when every character is a decimal digit, \<^verbatim>\<open>ValueError\<close> otherwise
  (a superscript digit is no decimal digit). The interpreters the package supports
  (3.10 and later) also raise \<^verbatim>\<open>ValueError\<close> for a numeral of more than
  \<^verbatim>\<open>sys.int_info.default_max_str_digits\<close> = 4300 digits.
\<close>

definition max_str_digits :: nat where
  "max_str_digits = 4300"

definition int_of_str :: "string \<Rightarrow> py_error + int" where
  "int_of_str s =
     (if s \<noteq> [] \<and> list_all ascii_digit s \<and> length s \<le> max_str_digits
      then Inr (digits_val s) else Inl ValueError)"

subsection \<open>\<open>normalize_value\<close>\<close>

text \<open>
  \<open>pf\<close> is \<^verbatim>\<open>float(s)\<close>: the parsed number, or \<open>None\<close> where it raises
  \<^verbatim>\<open>ValueError\<close>. The call \<^verbatim>\<open>int(value)\<close> stands outside the \<^verbatim>\<open>try\<close>, so its
  error leaves the function.
\<close>

definition normalize_value :: "(string \<Rightarrow> pyfloat option) \<Rightarrow> jv \<Rightarrow> py_error + jv" where
  "normalize_value pf v =
     (case v of
        JStr s \<Rightarrow>
          (if str_isdigit s then
             (case int_of_str s of Inl e \<Rightarrow> Inl e | Inr n \<Rightarrow> Inr (JInt n))
           else
             (case pf s of Some f \<Rightarrow> Inr (JFloat f) | None \<Rightarrow> Inr v))
      | _ \<Rightarrow> Inr v)"

section \<open>The library functions the code calls\<close>

text \<open>
  \<^verbatim>\<open>DeepDiff\<close> is a third-party library and \<^verbatim>\<open>float\<close> and \<^verbatim>\<open>str\<close> are built in:
  none of them is code of this repository. They are parameters of the model.

  A \<open>diff_tree\<close> holds the six categories \<^verbatim>\<open>DeepDiff\<close> reports on JSON data, each
  as the code reads it: a path with its \<^verbatim>\<open>new_value\<close> and \<^verbatim>\<open>old_value\<close>, a path
  alone, or a path with the one item added or removed there.
\<close>

record diff_tree =
  values_changed :: "(string \<times> jv \<times> jv) list"
  dictionary_item_added :: "string list"
  dictionary_item_removed :: "string list"
  type_changes :: "(string \<times> jv \<times> jv) list"
  iterable_item_added :: "(string \<times> jv) list"
  iterable_item_removed :: "(string \<times> jv) list"

definition no_diff :: diff_tree where
  "no_diff = \<lparr>values_changed = [], dictionary_item_added = [],
     dictionary_item_removed = [], type_changes = [], iterable_item_added = [],
     iterable_item_removed = []\<rparr>"

text \<open>\<^verbatim>\<open>not diff\<close>\<close>

definition diff_is_empty :: "diff_tree \<Rightarrow> bool" where
  "diff_is_empty d =
     (values_changed d = [] \<and> dictionary_item_added d = [] \<and>
      dictionary_item_removed d = [] \<and> type_changes d = [] \<and>
      iterable_item_added d = [] \<and> iterable_item_removed d = [])"

text \<open>
  \<open>DeepDiff L old new paths\<close> is
  \<^verbatim>\<open>DeepDiff(old, new, ignore_order=True, exclude_paths=paths)\<close>,
  \<open>py_float L s\<close> is \<^verbatim>\<open>float(s)\<close> (\<open>None\<close> for \<^verbatim>\<open>ValueError\<close>),
  \<open>py_str L v\<close> is \<^verbatim>\<open>str(v)\<close>, which an f-string applies, and \<open>set_order L xs\<close> is
  the order in which Python iterates the set of the values \<open>xs\<close>, which the language
  leaves open.
\<close>

record pylib =
  DeepDiff :: "jv \<Rightarrow> jv \<Rightarrow> string list \<Rightarrow> diff_tree"
  py_float :: "string \<Rightarrow> pyfloat option"
  py_str :: "jv \<Rightarrow> string"
  set_order :: "jv list \<Rightarrow> jv list"

text \<open>\<^verbatim>\<open>type(v).__name__\<close>\<close>

fun type_name :: "jv \<Rightarrow> string" where
  "type_name JNull = ''NoneType''"
| "type_name (JBool _) = ''bool''"
| "type_name (JInt _) = ''int''"
| "type_name (JFloat _) = ''float''"
| "type_name (JStr _) = ''str''"
| "type_name (JList _) = ''list''"
| "type_name (JDict _) = ''dict''"

text \<open>
  \<^verbatim>\<open>for item in v\<close>: the characters of a string, the elements of a list, the keys of
  a dict; \<^verbatim>\<open>TypeError\<close> for \<^verbatim>\<open>None\<close>, a \<^verbatim>\<open>bool\<close> or a number.
\<close>

fun py_iter :: "jv \<Rightarrow> py_error + jv list" where
  "py_iter (JStr s) = Inr (map (\<lambda>c. JStr [c]) s)"
| "py_iter (JList xs) = Inr xs"
| "py_iter (JDict d) = Inr (map (\<lambda>kv. JStr (fst kv)) d)"
| "py_iter _ = Inl TypeError"

text \<open>A loop that appends to a list and stops at the first exception.\<close>

fun collect :: "('a \<Rightarrow> py_error + 'b list) \<Rightarrow> 'a list \<Rightarrow> py_error + 'b list" where
  "collect f [] = Inr []"
| "collect f (x # xs) =
     (case f x of
        Inl e \<Rightarrow> Inl e
      | Inr ys \<Rightarrow> (case collect f xs of Inl e \<Rightarrow> Inl e | Inr zs \<Rightarrow> Inr (ys @ zs)))"

section \<open>diff\_converter.py\<close>

subsection \<open>\<open>_convert_path_to_key_name\<close>\<close>

abbreviation sq :: char where
  "sq \<equiv> CHR 0x27"

text \<open>\<^verbatim>\<open>s.replace(old, new)\<close>: the occurrences of \<open>old\<close>, left to right, none overlapping.\<close>

function str_replace :: "string \<Rightarrow> string \<Rightarrow> string \<Rightarrow> string" where
  "str_replace old new s =
     (if old = [] then new @ concat (map (\<lambda>c. c # new) s)
      else if s = [] then []
      else if prefix old s then new @ str_replace old new (drop (length old) s)
      else hd s # str_replace old new (tl s))"
  by pat_completeness auto
termination
  by (relation "measure (\<lambda>(old, new, s). length s)") auto

declare str_replace.simps [simp del]

definition convert_path_to_key_name :: "string \<Rightarrow> string" where
  "convert_path_to_key_name path =
     (let p1 = (if prefix (''root['' @ [sq]) path then drop 6 path else path);
          p2 = (if suffix (sq # '']'') p1 then take (length p1 - 2) p1 else p1);
          p3 = str_replace (sq # '']['' @ [sq]) ''.'' p2;
          p4 = str_replace '']['' ''.'' p3
      in str_replace '']'' [] (str_replace ''['' [] (str_replace [sq] [] p4)))"

subsection \<open>The change log\<close>

record change_entry =
  KeyName :: string
  CloudValue :: jv
  IacValue :: jv

definition process_values_changed ::
    "(string \<Rightarrow> pyfloat option) \<Rightarrow> (string \<times> jv \<times> jv) list \<Rightarrow> py_error + change_entry list" where
  "process_values_changed pf changes =
     collect (\<lambda>(path, new_value, old_value).
        case normalize_value pf new_value of
          Inl e \<Rightarrow> Inl e
        | Inr cloud_value \<Rightarrow>
            (case normalize_value pf old_value of
               Inl e \<Rightarrow> Inl e
             | Inr iac_value \<Rightarrow>
                 Inr [\<lparr>KeyName = convert_path_to_key_name path,
                       CloudValue = cloud_value, IacValue = iac_value\<rparr>])) changes"

definition process_dictionary_item_added :: "string list \<Rightarrow> change_entry list" where
  "process_dictionary_item_added paths =
     map (\<lambda>path. \<lparr>KeyName = convert_path_to_key_name path,
                   CloudValue = JStr ''ADDED'', IacValue = JNull\<rparr>) paths"

definition process_dictionary_item_removed :: "string list \<Rightarrow> change_entry list" where
  "process_dictionary_item_removed paths =
     map (\<lambda>path. \<lparr>KeyName = convert_path_to_key_name path,
                   CloudValue = JNull, IacValue = JStr ''REMOVED''\<rparr>) paths"

definition process_type_changes ::
    "(jv \<Rightarrow> string) \<Rightarrow> (string \<times> jv \<times> jv) list \<Rightarrow> change_entry list" where
  "process_type_changes fmt changes =
     map (\<lambda>(path, new_value, old_value).
        \<lparr>KeyName = convert_path_to_key_name path,
         CloudValue = JStr (type_name new_value @ '': '' @ fmt new_value),
         IacValue = JStr (type_name old_value @ '': '' @ fmt old_value)\<rparr>) changes"

text \<open>
  \<^verbatim>\<open>for path, items in items_added.items(): ... for item in items:\<close> iterates over the
  one item \<^verbatim>\<open>DeepDiff\<close> reports at \<open>path\<close>.
\<close>

definition process_iterable_item_added :: "(string \<times> jv) list \<Rightarrow> py_error + change_entry list" where
  "process_iterable_item_added items_added =
     collect (\<lambda>(path, items).
        case py_iter items of
          Inl e \<Rightarrow> Inl e
        | Inr xs \<Rightarrow>
            Inr (map (\<lambda>item. \<lparr>KeyName = convert_path_to_key_name path @ ''[+]'',
                               CloudValue = item, IacValue = JNull\<rparr>) xs)) items_added"

definition process_iterable_item_removed :: "(string \<times> jv) list \<Rightarrow> py_error + change_entry list" where
  "process_iterable_item_removed items_removed =
     collect (\<lambda>(path, items).
        case py_iter items of
          Inl e \<Rightarrow> Inl e
        | Inr xs \<Rightarrow>
            Inr (map (\<lambda>item. \<lparr>KeyName = convert_path_to_key_name path @ ''[-]'',
                               CloudValue = JNull, IacValue = item\<rparr>) xs)) items_removed"

definition id_paths :: "string list" where
  "id_paths = [''root['id']'', ''root['resource_id']'', ''root['arn']'']"

text \<open>The six \<open>_process_*\<close> calls, in the order of the source.\<close>

definition process_diff :: "pylib \<Rightarrow> diff_tree \<Rightarrow> py_error + change_entry list" where
  "process_diff L d =
     (case process_values_changed (py_float L) (values_changed d) of
        Inl e \<Rightarrow> Inl e
      | Inr vc \<Rightarrow>
          (case process_iterable_item_added (iterable_item_added d) of
             Inl e \<Rightarrow> Inl e
           | Inr ia \<Rightarrow>
               (case process_iterable_item_removed (iterable_item_removed d) of
                  Inl e \<Rightarrow> Inl e
                | Inr ir \<Rightarrow>
                    Inr (vc @ process_dictionary_item_added (dictionary_item_added d)
                         @ process_dictionary_item_removed (dictionary_item_removed d)
                         @ process_type_changes (py_str L) (type_changes d) @ ia @ ir))))"

definition convert_diff_to_changelog ::
    "pylib \<Rightarrow> resource \<Rightarrow> resource \<Rightarrow> py_error + change_entry list" where
  "convert_diff_to_changelog L cloud_resource iac_resource =
     (let d = DeepDiff L (JDict iac_resource) (JDict cloud_resource) id_paths
      in if diff_is_empty d then Inr [] else process_diff L d)"

subsection \<open>\<open>compare_arrays_with_id_matching\<close>\<close>

definition first_is_dict :: "jv list \<Rightarrow> bool" where
  "first_is_dict xs = (case xs of JDict _ # _ \<Rightarrow> True | _ \<Rightarrow> False)"

text \<open>
  \<^verbatim>\<open>"id" in item\<close>: a key of a dict, a substring of a string, an element of a list;
  \<^verbatim>\<open>TypeError\<close> for \<^verbatim>\<open>None\<close>, a \<^verbatim>\<open>bool\<close> or a number.
\<close>

fun contains_id :: "jv \<Rightarrow> py_error + bool" where
  "contains_id (JDict d) = Inr (has_key d ''id'')"
| "contains_id (JStr s) = Inr (sublist ''id'' s)"
| "contains_id (JList xs) = Inr (py_in (JStr ''id'') xs)"
| "contains_id _ = Inl TypeError"

text \<open>\<^verbatim>\<open>item["id"]\<close>: strings and lists take integer indices only.\<close>

fun subscript_id :: "jv \<Rightarrow> py_error + jv" where
  "subscript_id (JDict d) = subscript d ''id''"
| "subscript_id _ = Inl TypeError"

fun hashable :: "jv \<Rightarrow> bool" where
  "hashable (JList _) = False"
| "hashable (JDict _) = False"
| "hashable _ = True"

text \<open>\<^verbatim>\<open>m[k] = v\<close> and \<^verbatim>\<open>m.get(k)\<close> for the two lookup maps, whose keys are values.\<close>

fun dict_set :: "(jv \<times> jv) list \<Rightarrow> jv \<Rightarrow> jv \<Rightarrow> (jv \<times> jv) list" where
  "dict_set [] k v = [(k, v)]"
| "dict_set (kv # m) k v =
     (if py_eq (fst kv) k then (fst kv, v) # m else kv # dict_set m k v)"

fun dict_get :: "(jv \<times> jv) list \<Rightarrow> jv \<Rightarrow> jv" where
  "dict_get [] k = JNull"
| "dict_get (kv # m) k = (if py_eq (fst kv) k then snd kv else dict_get m k)"

fun build_map :: "jv list \<Rightarrow> (jv \<times> jv) list \<Rightarrow> py_error + (jv \<times> jv) list" where
  "build_map [] m = Inr m"
| "build_map (item # rest) m =
     (case contains_id item of
        Inl e \<Rightarrow> Inl e
      | Inr False \<Rightarrow> build_map rest m
      | Inr True \<Rightarrow>
          (case subscript_id item of
             Inl e \<Rightarrow> Inl e
           | Inr k \<Rightarrow> if hashable k then build_map rest (dict_set m k item) else Inl TypeError))"

text \<open>
  \<^verbatim>\<open>set(cloud_map.keys()) | set(iac_map.keys())\<close>: the keys of the first map and the
  new ones of the second are the elements of the set; the loop meets them in the order
  \<open>set_order\<close> gives.
\<close>

definition all_ids :: "pylib \<Rightarrow> (jv \<times> jv) list \<Rightarrow> (jv \<times> jv) list \<Rightarrow> jv list" where
  "all_ids L cloud_map iac_map =
     set_order L
       (map fst cloud_map @ filter (\<lambda>k. \<not> py_in k (map fst cloud_map)) (map fst iac_map))"

text \<open>
  The loop over \<^verbatim>\<open>item_diff.items()\<close> keeps the categories whose value is a dict
  (path to change), in the order \<^verbatim>\<open>DeepDiff\<close> lists them. A change that is itself a
  dict is read with \<^verbatim>\<open>change.get("new_value", change)\<close>.
\<close>

definition change_pair :: "jv \<Rightarrow> jv \<times> jv" where
  "change_pair change =
     (case change of
        JDict c \<Rightarrow>
          ((case map_of c ''new_value'' of Some v \<Rightarrow> v | None \<Rightarrow> change),
           (case map_of c ''old_value'' of Some v \<Rightarrow> v | None \<Rightarrow> change))
      | _ \<Rightarrow> (change, change))"

definition item_changes :: "string \<Rightarrow> diff_tree \<Rightarrow> change_entry list" where
  "item_changes pre d =
     map (\<lambda>(path, new_value, old_value).
        \<lparr>KeyName = pre @ convert_path_to_key_name path,
         CloudValue = new_value, IacValue = old_value\<rparr>) (type_changes d @ values_changed d)
     @ map (\<lambda>(path, change).
        \<lparr>KeyName = pre @ convert_path_to_key_name path,
         CloudValue = fst (change_pair change), IacValue = snd (change_pair change)\<rparr>)
        (iterable_item_added d @ iterable_item_removed d)"

definition compare_item ::
    "pylib \<Rightarrow> string \<Rightarrow> (jv \<times> jv) list \<Rightarrow> (jv \<times> jv) list \<Rightarrow> jv \<Rightarrow> change_entry list" where
  "compare_item L array_path cloud_map iac_map item_id =
     (let cloud_item = dict_get cloud_map item_id;
          iac_item = dict_get iac_map item_id;
          key = array_path @ ''.'' @ py_str L item_id
      in if truthy cloud_item \<and> truthy iac_item then
           (let d = DeepDiff L iac_item cloud_item []
            in if diff_is_empty d then [] else item_changes (key @ ''.'') d)
         else if truthy cloud_item then
           [\<lparr>KeyName = key, CloudValue = JStr ''ADDED'', IacValue = JNull\<rparr>]
         else if truthy iac_item then
           [\<lparr>KeyName = key, CloudValue = JNull, IacValue = JStr ''REMOVED''\<rparr>]
         else [])"

definition compare_arrays_with_id_matching ::
    "pylib \<Rightarrow> jv list \<Rightarrow> jv list \<Rightarrow> string \<Rightarrow> py_error + change_entry list" where
  "compare_arrays_with_id_matching L cloud_array iac_array array_path =
     (if first_is_dict cloud_array \<and> first_is_dict iac_array then
        (case build_map cloud_array [] of
           Inl e \<Rightarrow> Inl e
         | Inr cloud_map \<Rightarrow>
             (case build_map iac_array [] of
                Inl e \<Rightarrow> Inl e
              | Inr iac_map \<Rightarrow>
                  Inr (concat (map (compare_item L array_path cloud_map iac_map)
                                   (all_ids L cloud_map iac_map)))))
      else
        Inr [\<lparr>KeyName = array_path, CloudValue = JList cloud_array,
              IacValue = JList iac_array\<rparr>])"

section \<open>matcher.py\<close>

definition id_fields :: "string list" where
  "id_fields = [''id'', ''resource_id'', ''arn'']"

text \<open>The truth value of an \<^verbatim>\<open>Optional[Dict]\<close>: \<^verbatim>\<open>None\<close> and \<^verbatim>\<open>{}\<close> are false.\<close>

definition opt_truthy :: "resource option \<Rightarrow> bool" where
  "opt_truthy m = (case m of None \<Rightarrow> False | Some d \<Rightarrow> d \<noteq> [])"

subsection \<open>\<open>_primary_match\<close>\<close>

definition cloud_ids_of :: "resource \<Rightarrow> jv list" where
  "cloud_ids_of cloud_resource =
     map (get cloud_resource) (filter (\<lambda>field. truthy (get cloud_resource field)) id_fields)"

fun field_loop :: "jv list \<Rightarrow> resource \<Rightarrow> string list \<Rightarrow> bool" where
  "field_loop cloud_ids iac_resource [] = False"
| "field_loop cloud_ids iac_resource (field # rest) =
     (if has_key iac_resource field \<and> py_in (get iac_resource field) cloud_ids then True
      else field_loop cloud_ids iac_resource rest)"

fun primary_loop :: "jv list \<Rightarrow> resource list \<Rightarrow> resource option" where
  "primary_loop cloud_ids [] = None"
| "primary_loop cloud_ids (iac_resource # rest) =
     (if field_loop cloud_ids iac_resource id_fields then Some iac_resource
      else primary_loop cloud_ids rest)"

definition primary_match :: "resource \<Rightarrow> resource list \<Rightarrow> resource option" where
  "primary_match cloud_resource iac_resources =
     primary_loop (cloud_ids_of cloud_resource) iac_resources"

subsection \<open>\<open>_secondary_match\<close>\<close>

definition type_field :: "resource \<Rightarrow> jv" where
  "type_field r = py_or (get r ''type'') (get r ''resourceType'')"

fun secondary_loop :: "jv \<Rightarrow> jv \<Rightarrow> resource list \<Rightarrow> resource option" where
  "secondary_loop cloud_type cloud_name [] = None"
| "secondary_loop cloud_type cloud_name (iac_resource # rest) =
     (if py_eq (type_field iac_resource) cloud_type \<and>
         py_eq (get iac_resource ''name'') cloud_name
      then Some iac_resource
      else secondary_loop cloud_type cloud_name rest)"

definition secondary_match :: "resource \<Rightarrow> resource list \<Rightarrow> resource option" where
  "secondary_match cloud_resource iac_resources =
     (let cloud_type = type_field cloud_resource;
          cloud_name = get cloud_resource ''name''
      in if \<not> truthy cloud_type \<or> \<not> truthy cloud_name then None
         else secondary_loop cloud_type cloud_name iac_resources)"

subsection \<open>\<open>_tertiary_match\<close>\<close>

fun region_loop :: "jv \<Rightarrow> jv \<Rightarrow> resource list \<Rightarrow> resource option" where
  "region_loop cloud_name cloud_region [] = None"
| "region_loop cloud_name cloud_region (iac_resource # rest) =
     (if py_eq (get iac_resource ''name'') cloud_name \<and>
         py_eq (get iac_resource ''region'') cloud_region
      then Some iac_resource
      else region_loop cloud_name cloud_region rest)"

fun name_loop :: "jv \<Rightarrow> resource list \<Rightarrow> resource option" where
  "name_loop cloud_name [] = None"
| "name_loop cloud_name (iac_resource # rest) =
     (if py_eq (get iac_resource ''name'') cloud_name then Some iac_resource
      else name_loop cloud_name rest)"

definition tertiary_match :: "resource \<Rightarrow> resource list \<Rightarrow> resource option" where
  "tertiary_match cloud_resource iac_resources =
     (let cloud_name = get cloud_resource ''name'';
          cloud_region = get cloud_resource ''region''
      in if \<not> truthy cloud_name then None
         else
           (case (if truthy cloud_region
                  then region_loop cloud_name cloud_region iac_resources else None) of
              Some r \<Rightarrow> Some r
            | None \<Rightarrow> name_loop cloud_name iac_resources))"

subsection \<open>\<open>find_matching_iac_resource\<close>\<close>

definition find_matching_iac_resource :: "resource \<Rightarrow> resource list \<Rightarrow> resource option" where
  "find_matching_iac_resource cloud_resource iac_resources =
     (let primary = primary_match cloud_resource iac_resources
      in if opt_truthy primary then primary
         else
           (let secondary = secondary_match cloud_resource iac_resources
            in if opt_truthy secondary then secondary
               else
                 (let tertiary = tertiary_match cloud_resource iac_resources
                  in if opt_truthy tertiary then tertiary else None)))"

subsection \<open>\<open>get_match_confidence\<close>\<close>

text \<open>
  The score is a Python float, written here as the decimal Python prints for it.
  \<open>score_add\<close> is float addition at the operands \<^verbatim>\<open>score += ...\<close> can meet: the sums
  \<^verbatim>\<open>0.0 + 0.4\<close>, \<^verbatim>\<open>0.0 + 0.2\<close>, \<^verbatim>\<open>0.4 + 0.4\<close> and \<^verbatim>\<open>0.8 + 0.2\<close> print as the decimal sums,
  and \<^verbatim>\<open>0.4 + 0.2\<close> is \<^verbatim>\<open>0.6000000000000001\<close>.
\<close>

definition score_add :: "real \<Rightarrow> real \<Rightarrow> real" where
  "score_add a b = (if a = 0.4 \<and> b = 0.2 then 0.6000000000000001 else a + b)"

fun iac_field_loop :: "resource \<Rightarrow> resource \<Rightarrow> string \<Rightarrow> string list \<Rightarrow> bool" where
  "iac_field_loop cloud_resource iac_resource cloud_field [] = False"
| "iac_field_loop cloud_resource iac_resource cloud_field (iac_field # rest) =
     (if truthy (get cloud_resource cloud_field) \<and> truthy (get iac_resource iac_field) \<and>
         py_eq (get cloud_resource cloud_field) (get iac_resource iac_field)
      then True
      else iac_field_loop cloud_resource iac_resource cloud_field rest)"

fun cloud_field_loop :: "resource \<Rightarrow> resource \<Rightarrow> string list \<Rightarrow> bool" where
  "cloud_field_loop cloud_resource iac_resource [] = False"
| "cloud_field_loop cloud_resource iac_resource (cloud_field # rest) =
     (if iac_field_loop cloud_resource iac_resource cloud_field id_fields then True
      else cloud_field_loop cloud_resource iac_resource rest)"

definition get_match_confidence :: "resource \<Rightarrow> resource \<Rightarrow> real" where
  "get_match_confidence cloud_resource iac_resource =
     (if cloud_field_loop cloud_resource iac_resource id_fields then 1
      else
        (let s0 = 0;
             s1 = (if py_eq (type_field cloud_resource) (type_field iac_resource)
                   then score_add s0 0.4 else s0);
             s2 = (if py_eq (get cloud_resource ''name'') (get iac_resource ''name'')
                   then score_add s1 0.4 else s1);
             s3 = (if py_eq (get cloud_resource ''region'') (get iac_resource ''region'')
                   then score_add s2 0.2 else s2)
         in min s3 1))"

section \<open>analyzer.py\<close>

record analysis_item =
  CloudResourceItem :: resource
  IacResourceItem :: "resource option"
  State :: string
  ChangeLog :: "change_entry list"

record summary_counts =
  total :: nat
  missing :: nat
  modified :: nat
  match :: nat

record report =
  analysis :: "analysis_item list"
  summary :: summary_counts

definition without_ids :: "resource \<Rightarrow> resource" where
  "without_ids r = filter (\<lambda>kv. fst kv \<notin> set id_fields) r"

definition are_resources_identical :: "pylib \<Rightarrow> resource \<Rightarrow> resource \<Rightarrow> bool" where
  "are_resources_identical L cloud_resource iac_resource =
     diff_is_empty
       (DeepDiff L (JDict (without_ids iac_resource)) (JDict (without_ids cloud_resource)) [])"

definition analyze_single_resource ::
    "pylib \<Rightarrow> resource \<Rightarrow> resource list \<Rightarrow> py_error + analysis_item" where
  "analyze_single_resource L cloud_resource iac_resources =
     (let matching_iac = find_matching_iac_resource cloud_resource iac_resources
      in case (if opt_truthy matching_iac then matching_iac else None) of
           None \<Rightarrow>
             Inr \<lparr>CloudResourceItem = cloud_resource, IacResourceItem = None,
                  State = ''Missing'', ChangeLog = []\<rparr>
         | Some iac \<Rightarrow>
             if are_resources_identical L cloud_resource iac then
               Inr \<lparr>CloudResourceItem = cloud_resource, IacResourceItem = Some iac,
                    State = ''Match'', ChangeLog = []\<rparr>
             else
               (case convert_diff_to_changelog L cloud_resource iac of
                  Inl e \<Rightarrow> Inl e
                | Inr change_log \<Rightarrow>
                    Inr \<lparr>CloudResourceItem = cloud_resource, IacResourceItem = Some iac,
                         State = ''Modified'', ChangeLog = change_log\<rparr>))"

definition generate_summary :: "analysis_item list \<Rightarrow> summary_counts" where
  "generate_summary analysis_results =
     \<lparr>total = length analysis_results,
      missing = length (filter (\<lambda>r. State r = ''Missing'') analysis_results),
      modified = length (filter (\<lambda>r. State r = ''Modified'') analysis_results),
      match = length (filter (\<lambda>r. State r = ''Match'') analysis_results)\<rparr>"

definition analyze :: "pylib \<Rightarrow> resource list \<Rightarrow> resource list \<Rightarrow> py_error + report" where
  "analyze L cloud_resources iac_resources =
     (case collect (\<lambda>cloud_resource.
              case analyze_single_resource L cloud_resource iac_resources of
                Inl e \<Rightarrow> Inl e
              | Inr analysis_item \<Rightarrow> Inr [analysis_item]) cloud_resources of
        Inl e \<Rightarrow> Inl e
      | Inr analysis_results \<Rightarrow>
          Inr \<lparr>analysis = analysis_results, summary = generate_summary analysis_results\<rparr>)"

section \<open>What the properties are stated with\<close>

subsection \<open>Paths as \<^verbatim>\<open>DeepDiff\<close> writes them\<close>

text \<open>
  A path is \<^verbatim>\<open>root\<close> followed by one bracket per level: \<^verbatim>\<open>['key']\<close> into a dict,
  \<^verbatim>\<open>[3]\<close> into a list. (A key that holds a quote character is written otherwise by
  \<^verbatim>\<open>DeepDiff\<close>; such keys are outside \<open>render_path\<close>.)
\<close>

datatype seg = Key string | Idx nat

function dec_nat :: "nat \<Rightarrow> string" where
  "dec_nat n =
     (if n < 10 then [''0123456789'' ! n]
      else dec_nat (n div 10) @ [''0123456789'' ! (n mod 10)])"
  by pat_completeness auto
termination
  by (relation "measure id") auto

declare dec_nat.simps [simp del]

fun seg_text :: "seg \<Rightarrow> string" where
  "seg_text (Key k) = k"
| "seg_text (Idx i) = dec_nat i"

fun render_seg :: "seg \<Rightarrow> string" where
  "render_seg (Key k) = ''['' @ [sq] @ k @ [sq] @ '']''"
| "render_seg (Idx i) = ''['' @ dec_nat i @ '']''"

definition render_path :: "seg list \<Rightarrow> string" where
  "render_path segs = ''root'' @ concat (map render_seg segs)"

text \<open>The dotted name: the texts of the segments, joined by dots.\<close>

fun dotted :: "seg list \<Rightarrow> string" where
  "dotted [] = []"
| "dotted [s] = seg_text s"
| "dotted (s # t # rest) = seg_text s @ ''.'' @ dotted (t # rest)"

definition punct :: "char \<Rightarrow> bool" where
  "punct c = (c = sq \<or> c = CHR ''['' \<or> c = CHR '']'')"

fun plain_seg :: "seg \<Rightarrow> bool" where
  "plain_seg (Key k) = (\<not> list_ex punct k)"
| "plain_seg (Idx i) = True"

text \<open>
  For the proof about \<open>convert_path_to_key_name\<close>: the text of a path between the
  leading \<^verbatim>\<open>root['\<close> and the trailing \<^verbatim>\<open>']\<close> is the segment texts glued by
  separators, \<open>sep0\<close> as \<^verbatim>\<open>DeepDiff\<close> writes them, \<open>sep1\<close> after the first
  \<^verbatim>\<open>replace\<close> and \<open>sep2\<close> after the second. A path that ends in an index keeps its
  closing bracket (\<open>idx_end\<close>).
\<close>

fun sep0 :: "seg \<Rightarrow> seg \<Rightarrow> string" where
  "sep0 (Key k) (Key k') = [sq, CHR '']'', CHR ''['', sq]"
| "sep0 (Key k) (Idx i) = [sq, CHR '']'', CHR ''['']"
| "sep0 (Idx i) (Key k) = [CHR '']'', CHR ''['', sq]"
| "sep0 (Idx i) (Idx j) = [CHR '']'', CHR ''['']"

fun sep1 :: "seg \<Rightarrow> seg \<Rightarrow> string" where
  "sep1 (Key k) (Key k') = ''.''"
| "sep1 (Key k) (Idx i) = [sq, CHR '']'', CHR ''['']"
| "sep1 (Idx i) (Key k) = [CHR '']'', CHR ''['', sq]"
| "sep1 (Idx i) (Idx j) = [CHR '']'', CHR ''['']"

fun sep2 :: "seg \<Rightarrow> seg \<Rightarrow> string" where
  "sep2 (Key k) (Key k') = ''.''"
| "sep2 (Key k) (Idx i) = [sq, CHR ''.'']"
| "sep2 (Idx i) (Key k) = [CHR ''.'', sq]"
| "sep2 (Idx i) (Idx j) = ''.''"

fun idx_end :: "seg \<Rightarrow> string" where
  "idx_end (Key k) = []"
| "idx_end (Idx i) = '']''"

fun glue :: "(seg \<Rightarrow> seg \<Rightarrow> string) \<Rightarrow> seg \<Rightarrow> seg list \<Rightarrow> string" where
  "glue sp s [] = seg_text s @ idx_end s"
| "glue sp s (t # rest) = seg_text s @ sp s t @ glue sp t rest"

fun key_end :: "seg \<Rightarrow> string" where
  "key_end (Key k) = [sq, CHR '']'']"
| "key_end (Idx i) = []"

fun open_seg :: "seg \<Rightarrow> string" where
  "open_seg (Key k) = [CHR ''['', sq]"
| "open_seg (Idx i) = ''[''"

abbreviation kk_pattern :: string where
  "kk_pattern \<equiv> [sq, CHR '']'', CHR ''['', sq]"

abbreviation br_pattern :: string where
  "br_pattern \<equiv> [CHR '']'', CHR ''['']"

subsection \<open>The tests of the three tiers\<close>









subsection \<open>The confidence score, in words\<close>

text \<open>
  \<open>id_overlap\<close>: a truthy identity value of one side equals a truthy identity value of
  the other, under any pairing of the three fields.
\<close>

definition id_overlap :: "resource \<Rightarrow> resource \<Rightarrow> bool" where
  "id_overlap cloud iac =
     (\<exists>f \<in> set id_fields. \<exists>g \<in> set id_fields.
        truthy (get cloud f) \<and> truthy (get iac g) \<and> py_eq (get cloud f) (get iac g))"

definition weight :: "real \<Rightarrow> bool \<Rightarrow> real" where
  "weight w b = (if b then w else 0)"

text \<open>
  The score as the specification words it: 1 when the same identity field is present
  on both sides with equal values; else each weight counts only when its field is
  present and non-null on both sides and equal.
\<close>

definition present_equal :: "jv \<Rightarrow> jv \<Rightarrow> bool" where
  "present_equal a b = (a \<noteq> JNull \<and> b \<noteq> JNull \<and> py_eq a b)"

definition confidence_as_specified :: "resource \<Rightarrow> resource \<Rightarrow> real" where
  "confidence_as_specified cloud iac =
     (if \<exists>f \<in> set id_fields. has_key cloud f \<and> has_key iac f \<and> py_eq (get cloud f) (get iac f)
      then 1
      else min 1
        (weight 0.4 (present_equal (type_field cloud) (type_field iac))
         + weight 0.4 (present_equal (get cloud ''name'') (get iac ''name''))
         + weight 0.2 (present_equal (get cloud ''region'') (get iac ''region''))))"

subsection \<open>A library that replays recorded answers\<close>

text \<open>
  To run the code on a concrete input, the library functions are given by tables of
  their answers at the arguments that input reaches: \<open>replay answers floats strs\<close>
  answers a \<^verbatim>\<open>DeepDiff\<close> call found in \<open>answers\<close> with the recorded tree (and any
  other call with the empty diff), \<^verbatim>\<open>float(s)\<close> from \<open>floats\<close> (\<^verbatim>\<open>ValueError\<close>
  otherwise) and \<^verbatim>\<open>str(v)\<close> from \<open>strs\<close>. No run below reaches a set with two
  elements, so the order of a set is that of the list it is built from.
\<close>

definition replay_diff ::
    "(jv \<times> jv \<times> string list \<times> diff_tree) list \<Rightarrow> jv \<Rightarrow> jv \<Rightarrow> string list \<Rightarrow> diff_tree" where
  "replay_diff answers old new paths =
     (case find (\<lambda>r. fst r = old \<and> fst (snd r) = new \<and> fst (snd (snd r)) = paths) answers of
        Some r \<Rightarrow> snd (snd (snd r))
      | None \<Rightarrow> no_diff)"

definition replay ::
    "(jv \<times> jv \<times> string list \<times> diff_tree) list \<Rightarrow> (string \<times> pyfloat) list \<Rightarrow>
     (jv \<times> string) list \<Rightarrow> pylib" where
  "replay answers floats strs =
     \<lparr>DeepDiff = replay_diff answers, py_float = map_of floats,
      py_str = (\<lambda>v. case map_of strs v of Some s \<Rightarrow> s | None \<Rightarrow> []),
      set_order = (\<lambda>xs. xs)\<rparr>"

subsection \<open>What the converter asks of \<^verbatim>\<open>exclude_paths\<close>\<close>


text \<open>
  Two values are the same JSON when they are equal up to the order of the keys of their
  dicts (types are not mixed: \<^verbatim>\<open>1\<close> and \<^verbatim>\<open>1.0\<close> are not the same).
\<close>

fun same_json :: "jv \<Rightarrow> jv \<Rightarrow> bool"
  and same_json_list :: "jv list \<Rightarrow> jv list \<Rightarrow> bool"
  and same_json_items :: "(string \<times> jv) list \<Rightarrow> (string \<times> jv) list \<Rightarrow> bool" where
  "same_json (JList xs) y = (case y of JList ys \<Rightarrow> same_json_list xs ys | _ \<Rightarrow> False)"
| "same_json (JDict a) y =
     (case y of JDict b \<Rightarrow> length a = length b \<and> same_json_items a b | _ \<Rightarrow> False)"
| "same_json JNull y = (y = JNull)"
| "same_json (JBool b) y = (y = JBool b)"
| "same_json (JInt i) y = (y = JInt i)"
| "same_json (JFloat f) y = (y = JFloat f)"
| "same_json (JStr s) y = (y = JStr s)"
| "same_json_list [] ys = (ys = [])"
| "same_json_list (x # xs) ys =
     (case ys of [] \<Rightarrow> False | y # ys' \<Rightarrow> same_json x y \<and> same_json_list xs ys')"
| "same_json_items [] b = True"
| "same_json_items (kv # rest) b =
     (case map_of b (fst kv) of
        None \<Rightarrow> False
      | Some w \<Rightarrow> same_json (snd kv) w \<and> same_json_items rest b)"








subsection \<open>Concrete runs\<close>

text \<open>
  A security group whose IaC definition lists one port more than the cloud resource:
  cloud \<^verbatim>\<open>{"id": "sg-1", "ports": [80, 443]}\<close>, IaC
  \<^verbatim>\<open>{"id": "sg-1", "ports": [80, 443, 8080]}\<close>. Both \<^verbatim>\<open>DeepDiff\<close> calls of the analyzer
  (on the copies without the id, and with the id paths excluded) report
  \<^verbatim>\<open>{'iterable_item_removed': {"root['ports'][2]": 8080}}\<close>.
\<close>

definition sg_cloud :: resource where
  "sg_cloud = [(''id'', JStr ''sg-1''), (''ports'', JList [JInt 80, JInt 443])]"

definition sg_iac :: resource where
  "sg_iac = [(''id'', JStr ''sg-1''), (''ports'', JList [JInt 80, JInt 443, JInt 8080])]"

definition sg_diff :: diff_tree where
  "sg_diff = no_diff\<lparr>iterable_item_removed := [(''root['ports'][2]'', JInt 8080)]\<rparr>"

definition sg_lib :: pylib where
  "sg_lib = replay
     [(JDict [(''ports'', JList [JInt 80, JInt 443, JInt 8080])],
       JDict [(''ports'', JList [JInt 80, JInt 443])], [], sg_diff),
      (JDict sg_iac, JDict sg_cloud, id_paths, sg_diff)] [] []"

text \<open>
  An instance with one tag more in the cloud, the empty string: cloud
  \<^verbatim>\<open>{"id": "ec2-1", "tags": ["web", ""]}\<close>, IaC \<^verbatim>\<open>{"id": "ec2-1", "tags": ["web"]}\<close>.
  \<^verbatim>\<open>DeepDiff\<close> reports \<^verbatim>\<open>{'iterable_item_added': {"root['tags'][1]": ""}}\<close>.
\<close>

definition tags_cloud :: resource where
  "tags_cloud = [(''id'', JStr ''ec2-1''), (''tags'', JList [JStr ''web'', JStr []])]"

definition tags_iac :: resource where
  "tags_iac = [(''id'', JStr ''ec2-1''), (''tags'', JList [JStr ''web''])]"

definition tags_diff :: diff_tree where
  "tags_diff = no_diff\<lparr>iterable_item_added := [(''root['tags'][1]'', JStr [])]\<rparr>"

definition tags_lib :: pylib where
  "tags_lib = replay
     [(JDict [(''tags'', JList [JStr ''web''])],
       JDict [(''tags'', JList [JStr ''web'', JStr []])], [], tags_diff),
      (JDict tags_iac, JDict tags_cloud, id_paths, tags_diff)] [] []"

text \<open>
  A list that gains an element which is itself a list holding null: cloud
  \<^verbatim>\<open>{"id": "q-1", "rules": [[null]]}\<close>, IaC \<^verbatim>\<open>{"id": "q-1", "rules": []}\<close>.
  \<^verbatim>\<open>DeepDiff\<close> reports \<^verbatim>\<open>{'iterable_item_added': {"root['rules'][0]": [None]}}\<close>.
\<close>

definition rules_cloud :: resource where
  "rules_cloud = [(''id'', JStr ''q-1''), (''rules'', JList [JList [JNull]])]"

definition rules_iac :: resource where
  "rules_iac = [(''id'', JStr ''q-1''), (''rules'', JList [])]"

definition rules_lib :: pylib where
  "rules_lib = replay
     [(JDict rules_iac, JDict rules_cloud, id_paths,
       no_diff\<lparr>iterable_item_added := [(''root['rules'][0]'', JList [JNull])]\<rparr>)] [] []"




section \<open>Properties of \<open>normalize_value\<close>\<close>

lemma normalize_value_digits:
  "s \<noteq> [] \<Longrightarrow> list_all ascii_digit s \<Longrightarrow> length s \<le> max_str_digits \<Longrightarrow>
   normalize_value pf (JStr s) = Inr (JInt (digits_val s))"
  by (auto simp: normalize_value_def str_isdigit_def int_of_str_def isdigit_char_def list_all_iff)

lemma normalize_value_float:
  "\<not> str_isdigit s \<Longrightarrow> pf s = Some f \<Longrightarrow> normalize_value pf (JStr s) = Inr (JFloat f)"
  by (simp add: normalize_value_def)

lemma normalize_value_unparsed:
  "\<not> str_isdigit s \<Longrightarrow> pf s = None \<Longrightarrow> normalize_value pf (JStr s) = Inr (JStr s)"
  by (simp add: normalize_value_def)

lemma normalize_value_other:
  "(\<And>s. v \<noteq> JStr s) \<Longrightarrow> normalize_value pf v = Inr v"
  by (cases v) (auto simp add: normalize_value_def)

text \<open>
  C6. \<open>normalize_value\<close> is to return the integer for a string of ASCII digits, the
  parsed float for any other string that parses, and every other input unchanged,
  without ever raising. The three cases hold where it returns (the four lemmas above),
  but it does raise: \<^verbatim>\<open>isdigit\<close> holds of the one-character string U+00B2
  (superscript two), so \<^verbatim>\<open>int\<close> is called on it, outside the \<^verbatim>\<open>try\<close>, and its
  \<^verbatim>\<open>ValueError\<close> leaves the function, whatever \<^verbatim>\<open>float\<close> would have done.
\<close>

theorem normalize_value_raises:
  "normalize_value pf (JStr [CHR 0xB2]) = Inl ValueError"
  by (simp add: normalize_value_def str_isdigit_def isdigit_char_def int_of_str_def
      ascii_digit_def)

text \<open>
  C10. Normalizing twice is normalizing once: where the first call returns, the second
  returns the same; where the first call raises, so does the composition.
\<close>

theorem normalize_value_idempotent:
  "(case normalize_value pf v of Inl e \<Rightarrow> Inl e | Inr w \<Rightarrow> normalize_value pf w)
   = normalize_value pf v"
  by (cases v) (auto simp: normalize_value_def split: sum.splits option.splits)

theorem normalize_value_idempotent_witness:
  "(case normalize_value (map_of [(''2.5'', Fin (5 / 2))]) (JStr ''42'') of
      Inl e \<Rightarrow> Inl e
    | Inr w \<Rightarrow> normalize_value (map_of [(''2.5'', Fin (5 / 2))]) w) = Inr (JInt 42)"
  using normalize_value_idempotent [of "map_of [(''2.5'', Fin (5 / 2))]" "JStr ''42''"]
  by (simp add: normalize_value_def str_isdigit_def isdigit_char_def int_of_str_def
      ascii_digit_def digits_val_def digit_val_def max_str_digits_def)

section \<open>Properties of the matcher\<close>








lemma get_Nil [simp]: "get [] k = JNull"
  by (simp add: get_def)

lemma type_field_Nil [simp]: "type_field [] = JNull"
  by (simp add: type_field_def py_or_def)











subsection \<open>The confidence score\<close>

lemma iac_field_loop_iff:
  "iac_field_loop c i f gs \<longleftrightarrow>
     (\<exists>g \<in> set gs. truthy (get c f) \<and> truthy (get i g) \<and> py_eq (get c f) (get i g))"
  by (induction gs) auto

lemma cloud_field_loop_iff:
  "cloud_field_loop c i fs \<longleftrightarrow>
     (\<exists>f \<in> set fs. \<exists>g \<in> set id_fields.
        truthy (get c f) \<and> truthy (get i g) \<and> py_eq (get c f) (get i g))"
  by (induction fs) (auto simp: iac_field_loop_iff)

text \<open>
  The score is 1 when a truthy identity value of the cloud resource equals a truthy
  identity value of the IaC resource, and it always lies between 0 and 1.
\<close>

lemma get_match_confidence_identity:
  "id_overlap cloud iac \<Longrightarrow> get_match_confidence cloud iac = 1"
  by (simp add: get_match_confidence_def cloud_field_loop_iff id_overlap_def)

lemma get_match_confidence_range:
  "0 \<le> get_match_confidence cloud iac \<and> get_match_confidence cloud iac \<le> 1"
  by (simp add: get_match_confidence_def score_add_def Let_def)

text \<open>
  C5. A weight is to count only when its field is present and non-null on both sides.
  The code compares what \<^verbatim>\<open>.get\<close> returns, so a field that both sides lack counts as
  equal: two resources without any field score 1.0 where the specified score is 0, and
  two resources of different type and name, neither with a region, score 0.2 for the
  region, where the specified score is 0.
\<close>

theorem get_match_confidence_absent_fields:
  "get_match_confidence [] [] = 1 \<and> confidence_as_specified [] [] = 0
   \<and> get_match_confidence [(''type'', JStr ''vm''), (''name'', JStr ''a'')]
        [(''type'', JStr ''db''), (''name'', JStr ''b'')] = 0.2
   \<and> confidence_as_specified [(''type'', JStr ''vm''), (''name'', JStr ''a'')]
        [(''type'', JStr ''db''), (''name'', JStr ''b'')] = 0"
  by (simp add: get_match_confidence_def confidence_as_specified_def id_fields_def get_def
      type_field_def py_or_def weight_def present_equal_def has_key_def score_add_def
      id_overlap_def)

section \<open>Properties of \<open>compare_arrays_with_id_matching\<close>\<close>

text \<open>
  When either array is empty or does not start with a dict, the result is the one entry
  for the whole arrays; no lookup map is built and the library is not called.
\<close>

lemma compare_arrays_whole_array:
  "\<not> first_is_dict cloud_array \<or> \<not> first_is_dict iac_array \<Longrightarrow>
   compare_arrays_with_id_matching L cloud_array iac_array array_path =
     Inr [\<lparr>KeyName = array_path, CloudValue = JList cloud_array, IacValue = JList iac_array\<rparr>]"
  by (auto simp: compare_arrays_with_id_matching_def)

text \<open>
  C9. An array that contains a non-mapping element is to give the one whole-array entry,
  without identity matching. The guard looks at the first element of each array only, so
  an array with a non-mapping element after a dict enters identity matching: for
  \<^verbatim>\<open>[{}, "x"]\<close> against \<^verbatim>\<open>[{}]\<close> no element has an \<^verbatim>\<open>id\<close> and the result is empty, and
  for \<^verbatim>\<open>[{"id": 1}, 5]\<close> against \<^verbatim>\<open>[{"id": 1}]\<close> the test \<^verbatim>\<open>"id" in 5\<close> raises
  \<^verbatim>\<open>TypeError\<close>.
\<close>

theorem compare_arrays_later_element:
  "compare_arrays_with_id_matching (replay [] [] []) [JDict [], JStr ''x''] [JDict []] ''sg''
   = Inr []
   \<and> compare_arrays_with_id_matching (replay [] [] [])
       [JDict [(''id'', JInt 1)], JInt 5] [JDict [(''id'', JInt 1)]] ''sg''
   = Inl TypeError"
  by code_simp

section \<open>Properties of \<open>_convert_path_to_key_name\<close>\<close>

lemma str_replace_Nil: "old \<noteq> [] \<Longrightarrow> str_replace old new [] = []"
  by (simp add: str_replace.simps)

lemma str_replace_step:
  "old \<noteq> [] \<Longrightarrow> \<not> prefix old (c # s) \<Longrightarrow> str_replace old new (c # s) = c # str_replace old new s"
  by (subst str_replace.simps) simp

lemma str_replace_match:
  "old \<noteq> [] \<Longrightarrow> str_replace old new (old @ s) = new @ str_replace old new s"
  by (subst str_replace.simps) simp

lemma str_replace_skip:
  "old \<noteq> [] \<Longrightarrow> hd old \<notin> set w \<Longrightarrow> str_replace old new (w @ s) = w @ str_replace old new s"
proof (induction w)
  case Nil
  then show ?case by simp
next
  case (Cons c w)
  then have "\<not> prefix old (c # w @ s)"
    by (cases old) auto
  with Cons show ?case
    by (simp add: str_replace_step)
qed

lemma str_replace_delete: "str_replace [c] [] s = filter (\<lambda>x. x \<noteq> c) s"
proof (induction s)
  case Nil
  then show ?case by (simp add: str_replace_Nil)
next
  case (Cons x s)
  show ?case
  proof (cases "x = c")
    case True
    have "str_replace [c] [] ([c] @ s) = [] @ str_replace [c] [] s"
      by (rule str_replace_match) simp
    with True Cons show ?thesis by simp
  next
    case False
    then show ?thesis using Cons by (simp add: str_replace_step)
  qed
qed

lemma dec_nat_digits: "dec_nat n \<noteq> [] \<and> (\<forall>c \<in> set (dec_nat n). ascii_digit c)"
proof (induction n rule: dec_nat.induct)
  case (1 n)
  have d: "ascii_digit (''0123456789'' ! k)" if "k < 10" for k :: nat
    unfolding ascii_digit_def by (rule nth_mem) (use that in simp)
  show ?case
  proof (cases "n < 10")
    case True
    then show ?thesis by (subst dec_nat.simps, subst (2) dec_nat.simps) (simp add: d)
  next
    case False
    with 1 show ?thesis
      by (subst dec_nat.simps, subst (2) dec_nat.simps) (auto simp: d)
  qed
qed

lemma ascii_digit_not_punct: "ascii_digit c \<Longrightarrow> \<not> punct c"
  by (auto simp: ascii_digit_def punct_def)

lemma seg_text_plain: "plain_seg s \<Longrightarrow> c \<in> set (seg_text s) \<Longrightarrow> \<not> punct c"
  using dec_nat_digits ascii_digit_not_punct by (cases s) (auto simp: list_ex_iff)

lemma text_no_sq: "plain_seg s \<Longrightarrow> sq \<notin> set (seg_text s)"
  using seg_text_plain [of s sq] by (auto simp: punct_def)

lemma text_no_close: "plain_seg s \<Longrightarrow> CHR '']'' \<notin> set (seg_text s)"
  using seg_text_plain [of s "CHR '']''"] by (auto simp: punct_def)

lemma text_no_punct: "plain_seg s \<Longrightarrow> filter (\<lambda>c. \<not> punct c) (seg_text s) = seg_text s"
  using seg_text_plain [of s] by (auto simp: filter_id_conv)

lemma idx_head: "\<exists>d ds. glue sp (Idx i) rest = d # ds \<and> ascii_digit d"
proof -
  obtain d ds where "dec_nat i = d # ds" and "ascii_digit d"
    using dec_nat_digits [of i] by (cases "dec_nat i") auto
  then show ?thesis
    by (cases rest) auto
qed

lemma key_head: "plain_seg (Key k) \<Longrightarrow> \<not> prefix '']'' (glue sep0 (Key k) rest)"
proof (cases k)
  case Nil
  show ?thesis
  proof (cases rest)
    case Nil
    with \<open>k = []\<close> show ?thesis by simp
  next
    case (Cons a list)
    with \<open>k = []\<close> show ?thesis by (cases a) auto
  qed
next
  case (Cons c cs)
  assume "plain_seg (Key k)"
  with Cons have "\<not> punct c" by (auto simp: list_ex_iff)
  then have "c \<noteq> CHR '']''" by (auto simp: punct_def)
  with Cons show ?thesis by (cases rest) auto
qed

lemma punct_simps [simp]:
  "punct sq" "punct (CHR ''['')" "punct (CHR '']'')" "\<not> punct (CHR ''.'')"
  by (simp_all add: punct_def)


lemma stage1:
  "plain_seg s \<Longrightarrow> list_all plain_seg rest \<Longrightarrow>
   str_replace kk_pattern ''.'' (glue sep0 s rest) = glue sep1 s rest"
proof (induction rest arbitrary: s)
  case Nil
  have "str_replace kk_pattern ''.'' (seg_text s @ idx_end s) = seg_text s @ str_replace kk_pattern ''.'' (idx_end s)"
    by (rule str_replace_skip) (use Nil text_no_sq in auto)
  moreover have "str_replace kk_pattern ''.'' (idx_end s) = idx_end s"
    by (cases s) (simp_all add: str_replace_Nil str_replace_step)
  ultimately show ?case by simp
next
  case (Cons t rest)
  let ?R = "str_replace kk_pattern ''.''"
  let ?G = "glue sep0 t rest"
  from Cons have IH: "?R ?G = glue sep1 t rest" and pt: "plain_seg t" by auto
  have skip: "?R (seg_text s @ sep0 s t @ ?G) = seg_text s @ ?R (sep0 s t @ ?G)"
    by (rule str_replace_skip) (use Cons.prems text_no_sq in auto)
  have "?R (sep0 s t @ ?G) = sep1 s t @ glue sep1 t rest"
  proof (cases s)
    case (Key k)
    show ?thesis
    proof (cases t)
      case (Key k')
      have "?R (kk_pattern @ ?G) = ''.'' @ ?R ?G"
        by (rule str_replace_match) simp
      with \<open>s = Key k\<close> Key IH show ?thesis by simp
    next
      case (Idx i)
      obtain d ds where g: "?G = d # ds" and d: "ascii_digit d"
        using idx_head [of sep0 i rest] Idx by auto
      from d have "d \<noteq> sq" by (auto simp: ascii_digit_def)
      then have "?R (sq # CHR '']'' # CHR ''['' # ?G) = sq # CHR '']'' # CHR ''['' # ?R ?G"
        by (simp add: g str_replace_step)
      with \<open>s = Key k\<close> Idx IH show ?thesis by simp
    qed
  next
    case (Idx i)
    show ?thesis
    proof (cases t)
      case (Key k')
      from pt Key have "\<not> prefix '']'' ?G" using key_head by simp
      then have "\<not> prefix kk_pattern (sq # ?G)"
        by (cases ?G) auto
      then have "?R (CHR '']'' # CHR ''['' # sq # ?G) = CHR '']'' # CHR ''['' # sq # ?R ?G"
        by (simp add: str_replace_step)
      with \<open>s = Idx i\<close> Key IH show ?thesis by simp
    next
      case (Idx j)
      have "?R (CHR '']'' # CHR ''['' # ?G) = CHR '']'' # CHR ''['' # ?R ?G"
        by (simp add: str_replace_step)
      with \<open>s = Idx i\<close> Idx IH show ?thesis by simp
    qed
  qed
  with skip show ?case by simp
qed

lemma stage2:
  "plain_seg s \<Longrightarrow> list_all plain_seg rest \<Longrightarrow>
   str_replace br_pattern ''.'' (glue sep1 s rest) = glue sep2 s rest"
proof (induction rest arbitrary: s)
  case Nil
  have "str_replace br_pattern ''.'' (seg_text s @ idx_end s) = seg_text s @ str_replace br_pattern ''.'' (idx_end s)"
    by (rule str_replace_skip) (use Nil text_no_close in auto)
  moreover have "str_replace br_pattern ''.'' (idx_end s) = idx_end s"
    by (cases s) (simp_all add: str_replace_Nil str_replace_step)
  ultimately show ?case by simp
next
  case (Cons t rest)
  let ?R = "str_replace br_pattern ''.''"
  let ?G = "glue sep1 t rest"
  from Cons have IH: "?R ?G = glue sep2 t rest" and pt: "plain_seg t" by auto
  have skip: "?R (seg_text s @ sep1 s t @ ?G) = seg_text s @ ?R (sep1 s t @ ?G)"
    by (rule str_replace_skip) (use Cons.prems text_no_close in auto)
  have m: "?R (br_pattern @ x) = ''.'' @ ?R x" for x
    by (rule str_replace_match) simp
  have "?R (sep1 s t @ ?G) = sep2 s t @ glue sep2 t rest"
  proof (cases s)
    case (Key k)
    show ?thesis
    proof (cases t)
      case (Key k')
      with \<open>s = Key k\<close> IH show ?thesis by (simp add: str_replace_step)
    next
      case (Idx i)
      have "?R (sq # br_pattern @ ?G) = sq # ?R (br_pattern @ ?G)"
        by (simp add: str_replace_step)
      with \<open>s = Key k\<close> Idx IH m [of ?G] show ?thesis by simp
    qed
  next
    case (Idx i)
    show ?thesis
    proof (cases t)
      case (Key k')
      have "?R (sq # ?G) = sq # ?R ?G"
        by (simp add: str_replace_step)
      with \<open>s = Idx i\<close> Key IH m [of "sq # ?G"] show ?thesis by simp
    next
      case (Idx j)
      with \<open>s = Idx i\<close> IH m [of ?G] show ?thesis by simp
    qed
  qed
  with skip show ?case by simp
qed

lemma stage3:
  "plain_seg s \<Longrightarrow> list_all plain_seg rest \<Longrightarrow>
   filter (\<lambda>c. \<not> punct c) (glue sep2 s rest) = dotted (s # rest)"
proof (induction rest arbitrary: s)
  case Nil
  have "filter (\<lambda>c. \<not> punct c) (idx_end s) = []"
    by (cases s) simp_all
  with Nil text_no_punct [of s] show ?case by simp
next
  case (Cons t rest)
  then have "filter (\<lambda>c. \<not> punct c) (glue sep2 t rest) = dotted (t # rest)" by simp
  moreover have "filter (\<lambda>c. \<not> punct c) (sep2 s t) = ''.''"
    by (cases s; cases t) simp_all
  ultimately show ?case using Cons.prems text_no_punct [of s] by simp
qed

lemma delete_punct:
  "str_replace '']'' [] (str_replace ''['' [] (str_replace [sq] [] x)) = filter (\<lambda>c. \<not> punct c) x"
  by (simp add: str_replace_delete punct_def conj_commute conj_left_commute cong: filter_cong)

lemma render_glue:
  "concat (map render_seg (s # rest)) = open_seg s @ glue sep0 s rest @ key_end (last (s # rest))"
proof (induction rest arbitrary: s)
  case Nil
  show ?case by (cases s) simp_all
next
  case (Cons t rest)
  have a: "concat (map render_seg (s # t # rest)) =
      render_seg s @ open_seg t @ glue sep0 t rest @ key_end (last (t # rest))"
    using Cons.IH [of t] by simp
  have b: "render_seg s @ open_seg t @ x = open_seg s @ seg_text s @ sep0 s t @ x" for x
    by (cases s; cases t) simp_all
  show ?case unfolding a b by simp
qed

lemma idx_last:
  "last (s # rest) = Idx i \<Longrightarrow> \<exists>w d. glue sp s rest = w @ [d, CHR '']''] \<and> ascii_digit d"
proof (induction rest arbitrary: s)
  case Nil
  then have s: "s = Idx i" by simp
  obtain d where "d = last (dec_nat i)" by simp
  with dec_nat_digits [of i] have "dec_nat i = butlast (dec_nat i) @ [d]" "ascii_digit d"
    by auto
  then have "glue sp s [] = butlast (dec_nat i) @ [d, CHR '']'']"
    using s by (metis append.assoc append_Cons append_Nil glue.simps(1) idx_end.simps(2) seg_text.simps(2))
  with \<open>ascii_digit d\<close> show ?case by blast
next
  case (Cons t rest)
  then obtain w d where "glue sp t rest = w @ [d, CHR '']'']" "ascii_digit d"
    by force
  then have "glue sp s (t # rest) = (seg_text s @ sp s t @ w) @ [d, CHR '']'']"
    by simp
  with \<open>ascii_digit d\<close> show ?case by blast
qed

lemma strip_suffix:
  "(let p1 = glue sep0 s rest @ key_end (last (s # rest))
    in if suffix [sq, CHR '']''] p1 then take (length p1 - 2) p1 else p1) = glue sep0 s rest"
proof (cases "last (s # rest)")
  case (Key k)
  have "suffix [sq, CHR '']''] (glue sep0 s rest @ [sq, CHR '']''])"
    by (rule suffixI) simp
  with Key show ?thesis by (simp add: Let_def)
next
  case (Idx i)
  then obtain w d where g: "glue sep0 s rest = w @ [d, CHR '']'']" and d: "ascii_digit d"
    using idx_last by blast
  from d have "d \<noteq> sq" by (auto simp: ascii_digit_def)
  then have "\<not> suffix [sq, CHR '']''] (glue sep0 s rest)"
    by (simp add: g suffix_def)
  with Idx show ?thesis by (simp add: Let_def)
qed

lemma convert_plain_path:
  assumes "list_all plain_seg (Key k # rest)"
  shows "convert_path_to_key_name (render_path (Key k # rest)) = dotted (Key k # rest)"
proof -
  let ?s = "Key k"
  let ?body = "glue sep0 ?s rest"
  let ?p1 = "?body @ key_end (last (?s # rest))"
  from assms have ps: "plain_seg ?s" and pr: "list_all plain_seg rest" by simp_all
  have path: "render_path (?s # rest) = (''root['' @ [sq]) @ ?p1"
    unfolding render_path_def render_glue by simp
  have pre: "prefix (''root['' @ [sq]) (render_path (?s # rest))"
    unfolding path by (rule prefixI) simp
  have drop: "drop 6 (render_path (?s # rest)) = ?p1"
    unfolding path by simp
  have "convert_path_to_key_name (render_path (?s # rest)) =
        str_replace '']'' [] (str_replace ''['' [] (str_replace [sq] []
          (str_replace br_pattern ''.'' (str_replace kk_pattern ''.''
            (let p1 = ?p1 in if suffix [sq, CHR '']''] p1 then take (length p1 - 2) p1 else p1)))))"
    unfolding convert_path_to_key_name_def using pre drop by (simp add: Let_def)
  also have "\<dots> = filter (\<lambda>c. \<not> punct c) (str_replace br_pattern ''.'' (str_replace kk_pattern ''.'' ?body))"
    unfolding strip_suffix delete_punct ..
  also have "\<dots> = dotted (?s # rest)"
    using ps pr by (simp only: stage1 stage2 stage3)
  finally show ?thesis .
qed

text \<open>
  C7, as the code has it. For a path that starts with a dict key and whose keys hold no
  quote and no bracket character, the conversion strips the root marker and joins the
  texts of the key and index segments with dots, at any depth and for any mix of keys
  and indices.
\<close>

theorem convert_path_dotted:
  assumes "list_all plain_seg (Key k # rest)"
  shows "convert_path_to_key_name (render_path (Key k # rest)) = dotted (Key k # rest)"
  using assms by (rule convert_plain_path)

text \<open>The three paths the specification names.\<close>

theorem convert_path_dotted_witness:
  "convert_path_to_key_name ''root['tags']['totalAmount']'' = ''tags.totalAmount''
   \<and> convert_path_to_key_name ''root['security_groups'][0]'' = ''security_groups.0''
   \<and> convert_path_to_key_name ''root['a']['b']['c']'' = ''a.b.c''"
proof -
  have d0: "dec_nat 0 = ''0''" by (simp add: dec_nat.simps)
  show ?thesis
    using convert_path_dotted [of "''tags''" "[Key ''totalAmount'']"]
      convert_path_dotted [of "''security_groups''" "[Idx 0]"]
      convert_path_dotted [of "''a''" "[Key ''b'', Key ''c'']"]
    by (simp add: render_path_def punct_def d0)
qed

text \<open>
  C7 as stated fails for a key that holds a bracket: the path of the key \<^verbatim>\<open>a[0]\<close>
  is \<^verbatim>\<open>root['a[0]']\<close>, and the conversion, which deletes every bracket that is
  left, gives \<^verbatim>\<open>a0\<close>, not the key.
\<close>

theorem convert_path_counterexample:
  "convert_path_to_key_name (render_path [Key ''a[0]'']) = ''a0'' \<and> dotted [Key ''a[0]''] = ''a[0]''"
  by code_simp

section \<open>Properties of the change log\<close>

lemma collect_member:
  "collect f xs = Inr ys \<Longrightarrow> e \<in> set ys \<Longrightarrow> \<exists>x \<in> set xs. \<exists>zs. f x = Inr zs \<and> e \<in> set zs"
proof (induction xs arbitrary: ys)
  case Nil
  then show ?case by simp
next
  case (Cons x xs)
  then show ?case
    by (auto split: sum.splits)
qed

lemma normalize_value_keeps_non_null:
  "normalize_value pf v = Inr w \<Longrightarrow> v \<noteq> JNull \<Longrightarrow> w \<noteq> JNull"
  by (cases v) (auto simp: normalize_value_def split: if_splits sum.splits option.splits)

lemma values_changed_non_null:
  assumes "process_values_changed pf changes = Inr es" and "e \<in> set es"
    and "\<forall>(path, new_value, old_value) \<in> set changes. \<not> (new_value = JNull \<and> old_value = JNull)"
  shows "\<not> (CloudValue e = JNull \<and> IacValue e = JNull)"
proof -
  from collect_member [OF assms(1) [unfolded process_values_changed_def] assms(2)]
  obtain path n o' zs where m: "(path, n, o') \<in> set changes"
    and z: "(case normalize_value pf n of Inl e \<Rightarrow> Inl e
             | Inr c \<Rightarrow> (case normalize_value pf o' of Inl e \<Rightarrow> Inl e
                 | Inr i \<Rightarrow> Inr [\<lparr>KeyName = convert_path_to_key_name path,
                       CloudValue = c, IacValue = i\<rparr>])) = Inr zs"
    and e: "e \<in> set zs"
    by auto
  from z e obtain c i where c: "normalize_value pf n = Inr c" and i: "normalize_value pf o' = Inr i"
    and ee: "CloudValue e = c" "IacValue e = i"
    by (auto split: sum.splits)
  from m assms(3) have "n \<noteq> JNull \<or> o' \<noteq> JNull" by auto
  with c i normalize_value_keeps_non_null have "c \<noteq> JNull \<or> i \<noteq> JNull" by blast
  with ee show ?thesis by simp
qed

lemma plain_entries_non_null:
  "e \<in> set (process_dictionary_item_added a) \<union> set (process_dictionary_item_removed r)
       \<union> set (process_type_changes fmt t) \<Longrightarrow>
   \<not> (CloudValue e = JNull \<and> IacValue e = JNull)"
  by (auto simp: process_dictionary_item_added_def process_dictionary_item_removed_def
      process_type_changes_def)

text \<open>
  C8. Every entry is to have a non-null \<open>CloudValue\<close> or a non-null \<open>IacValue\<close>, entries
  for iterable items included. Entries for value changes between values that are not
  both null, for dictionary items and for type changes have one (the lemmas above). For
  a list that gains the element \<^verbatim>\<open>[null]\<close>, \<^verbatim>\<open>DeepDiff\<close> reports that element at its
  path, and the loop over \<^verbatim>\<open>iterable_item_added\<close> iterates over the reported element
  instead of using it: the entry carries the member \<^verbatim>\<open>null\<close> of the element as
  \<open>CloudValue\<close>, where the element \<^verbatim>\<open>[null]\<close> itself was to stand, and is null on both
  sides without being a type change.
\<close>

theorem changelog_null_entry:
  "convert_diff_to_changelog rules_lib rules_cloud rules_iac =
     Inr [\<lparr>KeyName = ''rules.0[+]'', CloudValue = JNull, IacValue = JNull\<rparr>]"
  by code_simp





lemma dotted_head: "\<exists>t. dotted (Key k # rest) = k @ t \<and> (rest \<noteq> [] \<longrightarrow> CHR ''.'' \<in> set t)"
  by (cases rest) auto








section \<open>Properties of the analyzer\<close>

text \<open>
  Where \<open>analyze\<close> returns a report, it has one item per cloud resource, every state is
  one of the three, the counts add up, and a missing or matching item has an empty
  change log.
\<close>

lemma analyze_single_states:
  "analyze_single_resource L c P = Inr it \<Longrightarrow>
   CloudResourceItem it = c \<and>
   (State it = ''Missing'' \<or> State it = ''Match'' \<or> State it = ''Modified'') \<and>
   (State it = ''Missing'' \<longrightarrow> IacResourceItem it = None \<and> ChangeLog it = []) \<and>
   (State it = ''Match'' \<longrightarrow> ChangeLog it = [])"
  by (auto simp: analyze_single_resource_def Let_def split: option.splits if_splits sum.splits)

lemma analyze_items:
  "collect (\<lambda>c. case analyze_single_resource L c P of Inl e \<Rightarrow> Inl e | Inr it \<Rightarrow> Inr [it]) C
     = Inr items \<Longrightarrow>
   list_all2 (\<lambda>c it. analyze_single_resource L c P = Inr it) C items"
proof (induction C arbitrary: items)
  case Nil
  then show ?case by simp
next
  case (Cons c C)
  then show ?case
    by (auto split: sum.splits)
qed

lemma state_counts:
  "\<forall>it \<in> set items. State it = ''Missing'' \<or> State it = ''Match'' \<or> State it = ''Modified'' \<Longrightarrow>
   length (filter (\<lambda>r. State r = ''Match'') items)
   + length (filter (\<lambda>r. State r = ''Modified'') items)
   + length (filter (\<lambda>r. State r = ''Missing'') items) = length items"
  by (induction items) auto

lemma analyze_counts:
  assumes "analyze L C P = Inr r"
  shows "length (analysis r) = length C \<and>
         (\<forall>it \<in> set (analysis r).
            State it = ''Missing'' \<or> State it = ''Match'' \<or> State it = ''Modified'') \<and>
         total (summary r) = length C \<and>
         match (summary r) + modified (summary r) + missing (summary r) = total (summary r)"
proof -
  from assms obtain items where
    c: "collect (\<lambda>c. case analyze_single_resource L c P of Inl e \<Rightarrow> Inl e | Inr it \<Rightarrow> Inr [it]) C
          = Inr items"
    and r: "r = \<lparr>analysis = items, summary = generate_summary items\<rparr>"
    by (auto simp: analyze_def split: sum.splits)
  from analyze_items [OF c]
  have l: "list_all2 (\<lambda>c it. analyze_single_resource L c P = Inr it) C items" .
  then have len: "length items = length C"
    by (simp add: list_all2_lengthD)
  have st: "\<forall>it \<in> set items. State it = ''Missing'' \<or> State it = ''Match'' \<or> State it = ''Modified''"
  proof
    fix it assume "it \<in> set items"
    with l obtain c where "analyze_single_resource L c P = Inr it"
      by (auto simp: list_all2_conv_all_nth in_set_conv_nth)
    then show "State it = ''Missing'' \<or> State it = ''Match'' \<or> State it = ''Modified''"
      using analyze_single_states by blast
  qed
  from state_counts [OF st] len st show ?thesis
    by (simp add: r generate_summary_def)
qed

text \<open>
  C1. \<open>analyze\<close> is to give a report with one item per cloud resource for every input.
  It does not: for the security group above the matched resources differ by one list
  element, the integer 8080, and \<open>_process_iterable_item_removed\<close> iterates over that
  element itself, which raises \<^verbatim>\<open>TypeError\<close>; no report is returned.
\<close>

theorem analyze_raises: "analyze sg_lib [sg_cloud] [sg_iac] = Inl TypeError"
  by code_simp

text \<open>
  C2. An item in state \<^verbatim>\<open>Modified\<close> is to have a non-empty change log. For the
  instance above the resources differ by one list element, the empty string;
  \<open>_process_iterable_item_added\<close> iterates over its characters, of which there are none,
  and the item is \<^verbatim>\<open>Modified\<close> with an empty change log.
\<close>

theorem analyze_modified_without_changes:
  "analyze tags_lib [tags_cloud] [tags_iac] =
     Inr \<lparr>analysis = [\<lparr>CloudResourceItem = tags_cloud, IacResourceItem = Some tags_iac,
                        State = ''Modified'', ChangeLog = []\<rparr>],
          summary = \<lparr>total = 1, missing = 0, modified = 1, match = 0\<rparr>\<rparr>"
  by code_simp

end
